theory Spec2Isabelle
  imports Main "HOL-Library.Word"
begin

section \<open>Data model\<close>

text \<open>
  The solver of \<^verbatim>\<open>r1cs.go\<close> (the template \<^verbatim>\<open>representations.R1CS\<close>), embedded
  function by function. Go panics, recoverable errors and normal returns are separate
  values of the model.
\<close>

subsection \<open>Field elements\<close>

text \<open>
  Modelled from the spec: the field element type \<^verbatim>\<open>fr.Element\<close> is an external
  dependency of the template (spec section 2: a black box satisfying a field's laws).
  An element is its canonical (regular) representative, a natural number below the
  modulus \<open>q\<close>; the Montgomery form of the Go type is a representation detail. The
  modulus and the number of 64-bit limbs depend on the curve the template is
  instantiated for, so both are parameters.
\<close>

type_synonym elem = nat

definition fadd :: "nat \<Rightarrow> elem \<Rightarrow> elem \<Rightarrow> elem" where
  "fadd q x y = (x + y) mod q"

definition fneg :: "nat \<Rightarrow> elem \<Rightarrow> elem" where
  "fneg q x = (q - x mod q) mod q"

definition fsub :: "nat \<Rightarrow> elem \<Rightarrow> elem \<Rightarrow> elem" where
  "fsub q x y = (x + (q - y mod q)) mod q"

definition fmul :: "nat \<Rightarrow> elem \<Rightarrow> elem \<Rightarrow> elem" where
  "fmul q x y = (x * y) mod q"

definition fdouble :: "nat \<Rightarrow> elem \<Rightarrow> elem" where
  "fdouble q x = (2 * x) mod q"

text \<open>Inverse in a prime field, by Fermat's little theorem; the inverse of 0 is 0.\<close>

definition finv :: "nat \<Rightarrow> elem \<Rightarrow> elem" where
  "finv q x = (if x mod q = 0 then 0 else (x ^ (q - 2)) mod q)"

definition fdiv :: "nat \<Rightarrow> elem \<Rightarrow> elem \<Rightarrow> elem" where
  "fdiv q x y = fmul q x (finv q y)"

text \<open>
  \<^verbatim>\<open>ToRegular\<close>: the limbs of the canonical value, least significant first, each a
  64-bit unsigned integer (a natural number below \<open>2 ^ 64\<close>).
\<close>

definition ToRegular :: "nat \<Rightarrow> elem \<Rightarrow> nat list" where
  "ToRegular nlimbs x = map (\<lambda>i. (x div 2 ^ (64 * i)) mod 2 ^ 64) [0..<nlimbs]"

subsection \<open>Terms, constraints, constraint system\<close>

text \<open>
  The type \<^verbatim>\<open>r1c.Term\<close> is declared outside the given sources; the solver reads it
  through three accessors only: \<^verbatim>\<open>ConstraintID()\<close> (the wire index), \<^verbatim>\<open>CoeffID()\<close>
  (an index into the coefficient table) and \<^verbatim>\<open>CoeffValue()\<close> (an \<^verbatim>\<open>int\<close>: one of
  the special values -1, 0, 1, 2, or any other integer when the coefficient is not
  special). A term is the record of the three results.
\<close>

record r1c_term =
  ConstraintID :: nat
  CoeffID :: nat
  CoeffValue :: int

datatype solving_method = SingleOutput | BinaryDec | OtherMethod

record r1c =
  r1c_L :: "r1c_term list"
  r1c_R :: "r1c_term list"
  r1c_O :: "r1c_term list"
  Solver :: solving_method

record log_entry =
  Format :: string
  ToResolve :: "nat list"

record r1cs =
  NbWires :: "64 word"
  NbPublicWires :: "64 word"
  NbSecretWires :: "64 word"
  SecretWires :: "string list"
  PublicWires :: "string list"
  Logs :: "log_entry list"
  DebugInfo :: "log_entry list"
  NbConstraints :: "64 word"
  NbCOConstraints :: "64 word"
  Constraints :: "r1c list"
  Coefficients :: "elem list"

text \<open>
  What the template takes from its environment: the field (modulus and limb count),
  the reserved name \<^verbatim>\<open>backend.OneWire\<close>, \<^verbatim>\<open>fmt.Sprintf\<close> and the \<^verbatim>\<open>String\<close> method of
  field elements.
\<close>

record env =
  modulus :: nat
  nbLimbs :: nat
  OneWire :: string
  Sprintf :: "string \<Rightarrow> string list \<Rightarrow> string"
  ElemString :: "elem \<Rightarrow> string"

subsection \<open>Panics, errors, results\<close>

datatype panic =
    IndexOutOfRange
  | MoreThanOneWire
  | ErrorSolvingR1C string
  | WireNotInstantiated
  | UnimplementedSolvingMethod

datatype error =
    InvalidInputSize
  | InputNotSet string
  | UnsatisfiedConstraint string

text \<open>
  The working buffers of one call of \<^verbatim>\<open>Solve\<close>: the caller's vectors \<^verbatim>\<open>a\<close>, \<^verbatim>\<open>b\<close>,
  \<^verbatim>\<open>c\<close> and \<^verbatim>\<open>wireValues\<close>, and the bitmap \<^verbatim>\<open>wireInstantiated\<close>.
\<close>

record bufs =
  va :: "elem list"
  vb :: "elem list"
  vc :: "elem list"
  wireValues :: "elem list"
  wireInstantiated :: "bool list"

section \<open>Term evaluation helpers\<close>

text \<open>\<^verbatim>\<open>AddTerm\<close>: \<open>res += value * coefficient\<close>; the table lookup can be out of range.\<close>

definition AddTerm :: "env \<Rightarrow> r1cs \<Rightarrow> elem \<Rightarrow> r1c_term \<Rightarrow> elem \<Rightarrow> panic + elem" where
  "AddTerm E cs res t v =
     (if CoeffValue t = 1 then Inr (fadd (modulus E) res v)
      else if CoeffValue t = -1 then Inr (fsub (modulus E) res v)
      else if CoeffValue t = 0 then Inr res
      else if CoeffValue t = 2 then Inr (fadd (modulus E) res (fdouble (modulus E) v))
      else if CoeffID t < length (Coefficients cs)
        then Inr (fadd (modulus E) res (fmul (modulus E) (Coefficients cs ! CoeffID t) v))
      else Inl IndexOutOfRange)"

text \<open>\<^verbatim>\<open>mulWireByCoeff\<close>: \<open>res *= coefficient\<close>.\<close>

definition mulWireByCoeff :: "env \<Rightarrow> r1cs \<Rightarrow> elem \<Rightarrow> r1c_term \<Rightarrow> panic + elem" where
  "mulWireByCoeff E cs res t =
     (if CoeffValue t = 1 then Inr res
      else if CoeffValue t = -1 then Inr (fneg (modulus E) res)
      else if CoeffValue t = 0 then Inr 0
      else if CoeffValue t = 2 then Inr (fdouble (modulus E) res)
      else if CoeffID t < length (Coefficients cs)
        then Inr (fmul (modulus E) res (Coefficients cs ! CoeffID t))
      else Inl IndexOutOfRange)"

text \<open>
  One loop \<^verbatim>\<open>for _, t := range ts { r1cs.AddTerm(&acc, t, wireValues[t.ConstraintID()]) }\<close>.
\<close>

fun sumTerms :: "env \<Rightarrow> r1cs \<Rightarrow> elem list \<Rightarrow> r1c_term list \<Rightarrow> elem \<Rightarrow> panic + elem" where
  "sumTerms E cs wv [] acc = Inr acc"
| "sumTerms E cs wv (t # ts) acc =
     (if ConstraintID t < length wv then
        (case AddTerm E cs acc t (wv ! ConstraintID t) of
           Inl p \<Rightarrow> Inl p
         | Inr acc' \<Rightarrow> sumTerms E cs wv ts acc')
      else Inl IndexOutOfRange)"

definition instantiateR1C :: "env \<Rightarrow> r1cs \<Rightarrow> r1c \<Rightarrow> elem list \<Rightarrow> panic + (elem \<times> elem \<times> elem)" where
  "instantiateR1C E cs r wv =
     (case sumTerms E cs wv (r1c_L r) 0 of
        Inl p \<Rightarrow> Inl p
      | Inr a \<Rightarrow>
          (case sumTerms E cs wv (r1c_R r) 0 of
             Inl p \<Rightarrow> Inl p
           | Inr b \<Rightarrow>
               (case sumTerms E cs wv (r1c_O r) 0 of
                  Inl p \<Rightarrow> Inl p
                | Inr c \<Rightarrow> Inr (a, b, c))))"

section \<open>Binary decomposition\<close>

text \<open>
  The two nested loops that fill \<^verbatim>\<open>bitSlice\<close> from the limbs \<^verbatim>\<open>n\<close> of the regular
  form. \<^verbatim>\<open>n\<close> is a Go array: \<^verbatim>\<open>n[i]\<close> with \<open>i\<close> past its length panics.
\<close>

function binDecInner :: "nat list \<Rightarrow> nat \<Rightarrow> nat \<Rightarrow> nat \<Rightarrow> nat list \<Rightarrow> panic + nat list" where
  "binDecInner n nbBits i j bitSlice =
     (if j < 64 \<and> i * 64 + j < nbBits then
        (if i < length n
         then binDecInner n nbBits i (j + 1)
                (bitSlice[i * 64 + j := ((n ! i) div 2 ^ j) mod 2])
         else Inl IndexOutOfRange)
      else Inr bitSlice)"
  by pat_completeness auto
termination
  by (relation "measure (\<lambda>(n, nbBits, i, j, bitSlice). 64 - j)") auto

declare binDecInner.simps [simp del]

function binDecOuter :: "nat list \<Rightarrow> nat \<Rightarrow> nat \<Rightarrow> nat list \<Rightarrow> panic + nat list" where
  "binDecOuter n nbBits i bitSlice =
     (if i * 64 < nbBits then
        (case binDecInner n nbBits i 0 bitSlice of
           Inl p \<Rightarrow> Inl p
         | Inr bs \<Rightarrow> binDecOuter n nbBits (i + 1) bs)
      else Inr bitSlice)"
  by pat_completeness auto
termination
  by (relation "measure (\<lambda>(n, nbBits, i, bitSlice). nbBits - i * 64)") auto

declare binDecOuter.simps [simp del]

definition extractBits :: "nat list \<Rightarrow> nat \<Rightarrow> panic + nat list" where
  "extractBits n nbBits = binDecOuter n nbBits 0 (replicate nbBits 0)"

text \<open>
  \<^verbatim>\<open>quickLog\<close>: the number of right shifts that bring the big integer to zero, minus
  one. The argument comes from \<^verbatim>\<open>ToBigIntRegular\<close> and is not negative.
\<close>

function quickLogLoop :: "nat \<Rightarrow> int \<Rightarrow> int" where
  "quickLogLoop bCopy res = (if bCopy \<noteq> 0 then quickLogLoop (bCopy div 2) (res + 1) else res)"
  by pat_completeness auto
termination
  by (relation "measure (\<lambda>(bCopy, res). bCopy)") auto

declare quickLogLoop.simps [simp del]

definition quickLog :: "nat \<Rightarrow> int" where
  "quickLog bi = quickLogLoop bi 0 - 1"

text \<open>\<^verbatim>\<open>SetUint64\<close> on a field element.\<close>

definition SetUint64 :: "env \<Rightarrow> nat \<Rightarrow> elem" where
  "SetUint64 E v = v mod modulus E"

text \<open>
  The last loop of the \<^verbatim>\<open>BinaryDec\<close> case: each term of \<^verbatim>\<open>L\<close> reads its bit at the
  position \<^verbatim>\<open>quickLog\<close> gives for its table coefficient.
\<close>

fun assignBits :: "env \<Rightarrow> r1cs \<Rightarrow> nat list \<Rightarrow> r1c_term list \<Rightarrow> elem list \<times> bool list
    \<Rightarrow> panic + (elem list \<times> bool list)" where
  "assignBits E cs bitSlice [] s = Inr s"
| "assignBits E cs bitSlice (t # ts) s =
     (if CoeffID t < length (Coefficients cs) then
        (let ithBit = quickLog (Coefficients cs ! CoeffID t) in
         if ConstraintID t < length (fst s) \<and> 0 \<le> ithBit \<and> ithBit < int (length bitSlice) then
           (if ConstraintID t < length (snd s) then
              assignBits E cs bitSlice ts
                ((fst s)[ConstraintID t := SetUint64 E (bitSlice ! nat ithBit)],
                 (snd s)[ConstraintID t := True])
            else Inl IndexOutOfRange)
         else Inl IndexOutOfRange)
      else Inl IndexOutOfRange)"

definition solveBinaryDec :: "env \<Rightarrow> r1cs \<Rightarrow> r1c \<Rightarrow> elem list \<times> bool list
    \<Rightarrow> panic + (elem list \<times> bool list)" where
  "solveBinaryDec E cs r s =
     (case sumTerms E cs (fst s) (r1c_O r) 0 of
        Inl p \<Rightarrow> Inl p
      | Inr n \<Rightarrow>
          (case extractBits (ToRegular (nbLimbs E) n) (length (r1c_L r)) of
             Inl p \<Rightarrow> Inl p
           | Inr bitSlice \<Rightarrow> assignBits E cs bitSlice (r1c_L r) s))"

section \<open>Single-unknown isolation\<close>

text \<open>
  The closure \<^verbatim>\<open>processTerm\<close> with the variables it captures made explicit: the state
  is \<open>(loc, termToCompute, val)\<close>, where \<open>val\<close> is the accumulator of the side being
  scanned.
\<close>

definition processTerm :: "env \<Rightarrow> r1cs \<Rightarrow> elem list \<times> bool list \<Rightarrow> nat \<Rightarrow> r1c_term
    \<Rightarrow> nat \<times> r1c_term \<times> elem \<Rightarrow> panic + (nat \<times> r1c_term \<times> elem)" where
  "processTerm E cs s locValue t st =
     (case st of (loc, termToCompute, val) \<Rightarrow>
        if ConstraintID t < length (snd s) then
          (if snd s ! ConstraintID t then
             (if ConstraintID t < length (fst s) then
                (case AddTerm E cs val t (fst s ! ConstraintID t) of
                   Inl p \<Rightarrow> Inl p
                 | Inr val' \<Rightarrow> Inr (loc, termToCompute, val'))
              else Inl IndexOutOfRange)
           else if loc \<noteq> 0 then Inl MoreThanOneWire
           else Inr (locValue, t, val))
        else Inl IndexOutOfRange)"

fun processTerms :: "env \<Rightarrow> r1cs \<Rightarrow> elem list \<times> bool list \<Rightarrow> nat \<Rightarrow> r1c_term list
    \<Rightarrow> nat \<times> r1c_term \<times> elem \<Rightarrow> panic + (nat \<times> r1c_term \<times> elem)" where
  "processTerms E cs s locValue [] st = Inr st"
| "processTerms E cs s locValue (t # ts) st =
     (case processTerm E cs s locValue t st of
        Inl p \<Rightarrow> Inl p
      | Inr st' \<Rightarrow> processTerms E cs s locValue ts st')"

text \<open>
  The zero value of \<^verbatim>\<open>r1c.Term\<close>, the initial \<^verbatim>\<open>termToCompute\<close>. It is read only
  after a term has been stored in it.
\<close>

definition zeroTerm :: r1c_term where
  "zeroTerm = \<lparr>ConstraintID = 0, CoeffID = 0, CoeffValue = 0\<rparr>"

text \<open>
  The \<^verbatim>\<open>switch loc\<close> of the \<^verbatim>\<open>SingleOutput\<close> case: the new \<^verbatim>\<open>wireValues\<close>.
\<close>

definition isolate :: "env \<Rightarrow> r1cs \<Rightarrow> nat \<Rightarrow> r1c_term \<Rightarrow> elem \<Rightarrow> elem \<Rightarrow> elem \<Rightarrow> elem list
    \<Rightarrow> panic + elem list" where
  "isolate E cs loc termToCompute a b c wv =
     (let cID = ConstraintID termToCompute; q = modulus E in
      if loc = 1 then
        (if b \<noteq> 0 then
           (if cID < length wv then
              (case mulWireByCoeff E cs (fsub q (fdiv q c b) a) termToCompute of
                 Inl p \<Rightarrow> Inl p
               | Inr v \<Rightarrow> Inr (wv[cID := v]))
            else Inl IndexOutOfRange)
         else Inr wv)
      else if loc = 2 then
        (if a \<noteq> 0 then
           (if cID < length wv then
              (case mulWireByCoeff E cs (fsub q (fdiv q c a) b) termToCompute of
                 Inl p \<Rightarrow> Inl p
               | Inr v \<Rightarrow> Inr (wv[cID := v]))
            else Inl IndexOutOfRange)
         else Inr wv)
      else if loc = 3 then
        (if cID < length wv then
           (case mulWireByCoeff E cs (fsub q (fmul q a b) c) termToCompute of
              Inl p \<Rightarrow> Inl p
            | Inr v \<Rightarrow> Inr (wv[cID := v]))
         else Inl IndexOutOfRange)
      else Inr wv)"

definition solveSingleOutput :: "env \<Rightarrow> r1cs \<Rightarrow> r1c \<Rightarrow> elem list \<times> bool list
    \<Rightarrow> panic + (elem list \<times> bool list)" where
  "solveSingleOutput E cs r s =
     (case processTerms E cs s 1 (r1c_L r) (0, zeroTerm, 0) of
        Inl p \<Rightarrow> Inl p
      | Inr (loc1, t1, a) \<Rightarrow>
     (case processTerms E cs s 2 (r1c_R r) (loc1, t1, 0) of
        Inl p \<Rightarrow> Inl p
      | Inr (loc2, t2, b) \<Rightarrow>
     (case processTerms E cs s 3 (r1c_O r) (loc2, t2, 0) of
        Inl p \<Rightarrow> Inl p
      | Inr (loc, termToCompute, c) \<Rightarrow>
          if loc = 0 then Inr s
          else
            (case isolate E cs loc termToCompute a b c (fst s) of
               Inl p \<Rightarrow> Inl p
             | Inr wv' \<Rightarrow>
                 if ConstraintID termToCompute < length (snd s)
                 then Inr (wv', (snd s)[ConstraintID termToCompute := True])
                 else Inl IndexOutOfRange))))"

text \<open>\<^verbatim>\<open>solveR1C\<close>: the state is the pair \<open>(wireValues, wireInstantiated)\<close>.\<close>

definition solveR1C :: "env \<Rightarrow> r1cs \<Rightarrow> r1c \<Rightarrow> elem list \<times> bool list
    \<Rightarrow> panic + (elem list \<times> bool list)" where
  "solveR1C E cs r s =
     (case Solver r of
        SingleOutput \<Rightarrow> solveSingleOutput E cs r s
      | BinaryDec \<Rightarrow> solveBinaryDec E cs r s
      | OtherMethod \<Rightarrow> Inl UnimplementedSolvingMethod)"

section \<open>Logs\<close>

fun resolveWires :: "env \<Rightarrow> elem list \<Rightarrow> bool list \<Rightarrow> nat list \<Rightarrow> panic + string list" where
  "resolveWires E wv inst [] = Inr []"
| "resolveWires E wv inst (wireID # ws) =
     (if wireID < length inst then
        (if \<not> inst ! wireID then Inl WireNotInstantiated
         else if wireID < length wv then
           (case resolveWires E wv inst ws of
              Inl p \<Rightarrow> Inl p
            | Inr ss \<Rightarrow> Inr (ElemString E (wv ! wireID) # ss))
         else Inl IndexOutOfRange)
      else Inl IndexOutOfRange)"

definition logValue :: "env \<Rightarrow> log_entry \<Rightarrow> elem list \<Rightarrow> bool list \<Rightarrow> panic + string" where
  "logValue E entry wv inst =
     (case resolveWires E wv inst (ToResolve entry) of
        Inl p \<Rightarrow> Inl p
      | Inr toResolve \<Rightarrow> Inr (Sprintf E (Format entry) toResolve))"

text \<open>\<^verbatim>\<open>printLogs\<close>: the strings printed to standard output, in order.\<close>

fun printLogs :: "env \<Rightarrow> log_entry list \<Rightarrow> elem list \<Rightarrow> bool list \<Rightarrow> panic + string list" where
  "printLogs E [] wv inst = Inr []"
| "printLogs E (e # es) wv inst =
     (case logValue E e wv inst of
        Inl p \<Rightarrow> Inl p
      | Inr str \<Rightarrow>
          (case printLogs E es wv inst of
             Inl p \<Rightarrow> Inl p
           | Inr strs \<Rightarrow> Inr (str # strs)))"

section \<open>Solve\<close>

text \<open>
  Go's \<^verbatim>\<open>int\<close> is 64 bits wide: \<^verbatim>\<open>int(x)\<close> of a \<^verbatim>\<open>uint64\<close> reads the same bits as
  two's complement, and \<^verbatim>\<open>i+offset\<close> wraps.
\<close>

definition int64_add :: "int \<Rightarrow> int \<Rightarrow> int" where
  "int64_add x y = sint (word_of_int (x + y) :: 64 word)"

text \<open>
  \<^verbatim>\<open>SetInterface\<close> on a value of the assignment map. Modelled from the spec: the map
  binds names to field-convertible values; here a value is a natural number, reduced
  into the field.
\<close>

definition SetInterface :: "env \<Rightarrow> nat \<Rightarrow> elem" where
  "SetInterface E v = v mod modulus E"

definition SetOne :: "env \<Rightarrow> elem" where
  "SetOne E = 1 mod modulus E"

text \<open>
  The closure \<^verbatim>\<open>instantiateInputs\<close>; \<open>i\<close> is the loop counter. The result is a panic,
  or the returned error (if any) with the buffers as they are at the return.
\<close>

fun instantiateInputs :: "env \<Rightarrow> (string \<rightharpoonup> nat) \<Rightarrow> int \<Rightarrow> string list \<Rightarrow> nat
    \<Rightarrow> elem list \<times> bool list \<Rightarrow> panic + (error option \<times> (elem list \<times> bool list))" where
  "instantiateInputs E assignment offset [] i s = Inr (None, s)"
| "instantiateInputs E assignment offset (name # names) i s =
     (let idx = int64_add (int i) offset in
      if name = OneWire E then
        (if 0 \<le> idx \<and> idx < int (length (fst s)) \<and> idx < int (length (snd s)) then
           instantiateInputs E assignment offset names (i + 1)
             ((fst s)[nat idx := SetOne E], (snd s)[nat idx := True])
         else Inl IndexOutOfRange)
      else
        (case assignment name of
           Some val \<Rightarrow>
             (if 0 \<le> idx \<and> idx < int (length (fst s)) \<and> idx < int (length (snd s)) then
                instantiateInputs E assignment offset names (i + 1)
                  ((fst s)[nat idx := SetInterface E val], (snd s)[nat idx := True])
              else Inl IndexOutOfRange)
         | None \<Rightarrow> Inr (Some (InputNotSet name), s)))"

text \<open>The message of the panic raised when a solved constraint does not hold.\<close>

definition solvingPanic :: "env \<Rightarrow> elem \<Rightarrow> elem \<Rightarrow> elem \<Rightarrow> panic" where
  "solvingPanic E a b c =
     ErrorSolvingR1C (''error solving r1c: '' @ ElemString E a @ ''*'' @ ElemString E b
        @ ''='' @ ElemString E c)"

text \<open>The loop over the computational constraints, \<open>i\<close> from its start up to \<open>N\<close>.\<close>

function compLoop :: "env \<Rightarrow> r1cs \<Rightarrow> nat \<Rightarrow> nat \<Rightarrow> bufs \<Rightarrow> panic + bufs" where
  "compLoop E cs N i s =
     (if i < N then
        (if i < length (Constraints cs) then
           (case solveR1C E cs (Constraints cs ! i) (wireValues s, wireInstantiated s) of
              Inl p \<Rightarrow> Inl p
            | Inr (wv, inst) \<Rightarrow>
                (case instantiateR1C E cs (Constraints cs ! i) wv of
                   Inl p \<Rightarrow> Inl p
                 | Inr (a, b, c) \<Rightarrow>
                     if i < length (va s) \<and> i < length (vb s) \<and> i < length (vc s) then
                       (if fmul (modulus E) a b \<noteq> c then Inl (solvingPanic E a b c)
                        else compLoop E cs N (i + 1)
                               (s\<lparr>va := (va s)[i := a], vb := (vb s)[i := b],
                                  vc := (vc s)[i := c], wireValues := wv,
                                  wireInstantiated := inst\<rparr>))
                     else Inl IndexOutOfRange))
         else Inl IndexOutOfRange)
      else Inr s)"
  by pat_completeness auto
termination
  by (relation "measure (\<lambda>(E, cs, N, i, s). N - i)") auto

declare compLoop.simps [simp del]

text \<open>
  The loop over the assertions, \<open>i\<close> from its start up to \<^verbatim>\<open>len(r1cs.Constraints)\<close>;
  \<open>N\<close> is \<^verbatim>\<open>int(r1cs.NbCOConstraints)\<close>. It ends with the error to return, if any.
\<close>

function assertLoop :: "env \<Rightarrow> r1cs \<Rightarrow> nat \<Rightarrow> nat \<Rightarrow> bufs \<Rightarrow> panic + (error option \<times> bufs)" where
  "assertLoop E cs N i s =
     (if i < length (Constraints cs) then
        (case instantiateR1C E cs (Constraints cs ! i) (wireValues s) of
           Inl p \<Rightarrow> Inl p
         | Inr (a, b, c) \<Rightarrow>
             if i < length (va s) \<and> i < length (vb s) \<and> i < length (vc s) then
               (let s' = s\<lparr>va := (va s)[i := a], vb := (vb s)[i := b], vc := (vc s)[i := c]\<rparr> in
                if fmul (modulus E) a b \<noteq> c then
                  (if i - N < length (DebugInfo cs) then
                     (case logValue E (DebugInfo cs ! (i - N)) (wireValues s) (wireInstantiated s) of
                        Inl p \<Rightarrow> Inl p
                      | Inr debugInfoStr \<Rightarrow> Inr (Some (UnsatisfiedConstraint debugInfoStr), s'))
                   else Inl IndexOutOfRange)
                else assertLoop E cs N (i + 1) s')
             else Inl IndexOutOfRange)
      else Inr (None, s))"
  by pat_completeness auto
termination
  by (relation "measure (\<lambda>(E, cs, N, i, s). length (Constraints cs) - i)") auto

declare assertLoop.simps [simp del]

text \<open>
  The outcome of one call of \<^verbatim>\<open>Solve\<close>: a panic, or a return with the error (\<open>None\<close>
  is \<^verbatim>\<open>nil\<close>), the buffers as the call leaves them and the strings printed.
\<close>

datatype outcome = Panicked panic | Returned "error option" bufs "string list"

text \<open>
  The part of \<^verbatim>\<open>Solve\<close> after the inputs are instantiated: both loops, then the
  deferred \<^verbatim>\<open>printLogs\<close>. A panic of the loops aborts the call whatever the deferred
  call does. When \<^verbatim>\<open>int(r1cs.NbCOConstraints)\<close> is negative the second loop starts at a
  negative index, below any length, and \<^verbatim>\<open>r1cs.Constraints[i]\<close> panics.
\<close>

definition solveConstraints :: "env \<Rightarrow> r1cs \<Rightarrow> bufs \<Rightarrow> outcome" where
  "solveConstraints E cs s =
     (let N = sint (NbCOConstraints cs) in
      case compLoop E cs (nat N) 0 s of
        Inl p \<Rightarrow> Panicked p
      | Inr s1 \<Rightarrow>
          (case (if N < 0 then Inl IndexOutOfRange else assertLoop E cs (nat N) (nat N) s1) of
             Inl p \<Rightarrow> Panicked p
           | Inr (err, s2) \<Rightarrow>
               (case printLogs E (Logs cs) (wireValues s2) (wireInstantiated s2) of
                  Inl p \<Rightarrow> Panicked p
                | Inr printed \<Rightarrow> Returned err s2 printed)))"

definition Solve :: "env \<Rightarrow> r1cs \<Rightarrow> (string \<rightharpoonup> nat) \<Rightarrow> elem list \<Rightarrow> elem list \<Rightarrow> elem list
    \<Rightarrow> elem list \<Rightarrow> outcome" where
  "Solve E cs assignment a b c wireValues0 =
     (let s0 = \<lparr>va = a, vb = b, vc = c, wireValues = wireValues0,
                wireInstantiated = replicate (unat (NbWires cs)) False\<rparr> in
      if int (length a) \<noteq> sint (NbConstraints cs) \<or> int (length b) \<noteq> sint (NbConstraints cs)
         \<or> int (length c) \<noteq> sint (NbConstraints cs) \<or> int (length wireValues0) \<noteq> sint (NbWires cs)
      then Returned (Some InvalidInputSize) (s0\<lparr>wireInstantiated := []\<rparr>) []
      else
        (case (if NbSecretWires cs \<noteq> 0
               then instantiateInputs E assignment
                      (sint (NbWires cs - NbPublicWires cs - NbSecretWires cs))
                      (SecretWires cs) 0 (wireValues0, wireInstantiated s0)
               else Inr (None, (wireValues0, wireInstantiated s0))) of
           Inl p \<Rightarrow> Panicked p
         | Inr (Some err, (wv, inst)) \<Rightarrow>
             Returned (Some err) (s0\<lparr>wireValues := wv, wireInstantiated := inst\<rparr>) []
         | Inr (None, s1) \<Rightarrow>
             (case instantiateInputs E assignment (sint (NbWires cs - NbPublicWires cs))
                     (PublicWires cs) 0 s1 of
                Inl p \<Rightarrow> Panicked p
              | Inr (Some err, (wv, inst)) \<Rightarrow>
                  Returned (Some err) (s0\<lparr>wireValues := wv, wireInstantiated := inst\<rparr>) []
              | Inr (None, (wv, inst)) \<Rightarrow>
                  solveConstraints E cs (s0\<lparr>wireValues := wv, wireInstantiated := inst\<rparr>))))"

section \<open>Specification-level notions used in the statements\<close>

text \<open>Bit \<open>k\<close> of a number given by its 64-bit limbs.\<close>

definition bitOf :: "nat list \<Rightarrow> nat \<Rightarrow> nat" where
  "bitOf n k = ((n ! (k div 64)) div 2 ^ (k mod 64)) mod 2"

text \<open>
  \<open>bs'\<close> is \<open>bs\<close> with the positions from \<open>lo\<close> up to \<open>hi\<close> (and below \<open>nbBits\<close>)
  replaced by the bits of \<open>n\<close>.
\<close>

definition filled :: "nat list \<Rightarrow> nat \<Rightarrow> nat \<Rightarrow> nat \<Rightarrow> nat list \<Rightarrow> nat list \<Rightarrow> bool" where
  "filled n nbBits lo hi bs bs' \<longleftrightarrow> length bs' = length bs \<and>
     (\<forall>k < length bs. bs' ! k = (if lo \<le> k \<and> k < hi \<and> k < nbBits then bitOf n k else bs ! k))"

section \<open>Concrete systems\<close>

text \<open>
  A small instance of the environment: the prime field of order 97 with one limb. The
  two formatting functions are simple stand-ins.
\<close>

definition E97 :: env where
  "E97 = \<lparr>modulus = 97, nbLimbs = 1, OneWire = ''ONE_WIRE'',
           Sprintf = (\<lambda>f args. f @ concat args),
           ElemString = (\<lambda>x. replicate x (CHR ''|''))\<rparr>"

definition tm :: "nat \<Rightarrow> nat \<Rightarrow> int \<Rightarrow> r1c_term" where
  "tm w k v = \<lparr>ConstraintID = w, CoeffID = k, CoeffValue = v\<rparr>"

text \<open>A binary decomposition over 65 terms, more than one limb has bits.\<close>

definition wide :: r1c where
  "wide = \<lparr>r1c_L = replicate 65 (tm 0 0 1), r1c_R = [], r1c_O = [], Solver = BinaryDec\<rparr>"

definition noCoeffs :: r1cs where
  "noCoeffs = \<lparr>NbWires = 1, NbPublicWires = 1, NbSecretWires = 0, SecretWires = [],
     PublicWires = [''ONE_WIRE''], Logs = [], DebugInfo = [], NbConstraints = 1,
     NbCOConstraints = 1, Constraints = [wide], Coefficients = []\<rparr>"

section \<open>The bit extraction loops\<close>

lemma bitOf_at: "j < 64 \<Longrightarrow> bitOf n (i * 64 + j) = ((n ! i) div 2 ^ j) mod 2"
  by (simp add: bitOf_def)

lemma binDecInner_stop:
  assumes "\<not> (j < 64 \<and> i * 64 + j < nbBits)"
  shows "binDecInner n nbBits i j bs = Inr bs"
  by (subst binDecInner.simps) (simp only: assms if_False)

lemma binDecInner_step:
  "j < 64 \<Longrightarrow> i * 64 + j < nbBits \<Longrightarrow> i < length n \<Longrightarrow>
   binDecInner n nbBits i j bs =
     binDecInner n nbBits i (j + 1) (bs[i * 64 + j := bitOf n (i * 64 + j)])"
  by (subst binDecInner.simps) (simp add: bitOf_at)

lemma binDecInner_panic:
  "\<not> i < length n \<Longrightarrow> j < 64 \<Longrightarrow> i * 64 + j < nbBits \<Longrightarrow>
   binDecInner n nbBits i j bs = Inl IndexOutOfRange"
  by (subst binDecInner.simps) simp

lemma filled_refl: "hi \<le> lo \<or> nbBits \<le> lo \<Longrightarrow> filled n nbBits lo hi bs bs"
  unfolding filled_def by auto

lemma filled_length: "filled n nbBits lo hi bs bs' \<Longrightarrow> length bs' = length bs"
  unfolding filled_def by simp

lemma filled_step:
  assumes "filled n nbBits (Suc lo) hi (bs[lo := bitOf n lo]) bs'" "lo < hi" "lo < nbBits"
  shows "filled n nbBits lo hi bs bs'"
  unfolding filled_def
proof (intro conjI allI impI)
  show "length bs' = length bs" using assms(1) unfolding filled_def by simp
next
  fix k assume k: "k < length bs"
  have h: "bs' ! k = (if Suc lo \<le> k \<and> k < hi \<and> k < nbBits then bitOf n k
                      else (bs[lo := bitOf n lo]) ! k)"
    using assms(1) k unfolding filled_def by simp
  show "bs' ! k = (if lo \<le> k \<and> k < hi \<and> k < nbBits then bitOf n k else bs ! k)"
  proof (cases "k = lo")
    case True
    then show ?thesis using h k assms(2,3) by simp
  next
    case False
    then have "(Suc lo \<le> k) = (lo \<le> k)" by arith
    then show ?thesis using h False by simp
  qed
qed

lemma filled_trans:
  assumes "filled n nbBits lo mid bs bs1" "filled n nbBits mid hi bs1 bs2" "lo \<le> mid" "mid \<le> hi"
  shows "filled n nbBits lo hi bs bs2"
  unfolding filled_def
proof (intro conjI allI impI)
  show "length bs2 = length bs" using assms(1,2) unfolding filled_def by simp
next
  fix k assume k: "k < length bs"
  have l1: "length bs1 = length bs" using assms(1) unfolding filled_def by simp
  have h1: "bs1 ! k = (if lo \<le> k \<and> k < mid \<and> k < nbBits then bitOf n k else bs ! k)"
    using assms(1) k unfolding filled_def by simp
  have h2: "bs2 ! k = (if mid \<le> k \<and> k < hi \<and> k < nbBits then bitOf n k else bs1 ! k)"
    using assms(2) k l1 unfolding filled_def by simp
  show "bs2 ! k = (if lo \<le> k \<and> k < hi \<and> k < nbBits then bitOf n k else bs ! k)"
    using h1 h2 assms(3,4) by (cases "k < mid") auto
qed

lemma binDecInner_ok:
  "i < length n \<Longrightarrow> j \<le> 64 \<Longrightarrow>
   \<exists>bs'. binDecInner n nbBits i j bs = Inr bs' \<and> filled n nbBits (i * 64 + j) (i * 64 + 64) bs bs'"
proof (induction n nbBits i j bs rule: binDecInner.induct)
  case (1 n nbBits i j bs)
  show ?case
  proof (cases "j < 64 \<and> i * 64 + j < nbBits")
    case False
    have "filled n nbBits (i * 64 + j) (i * 64 + 64) bs bs"
      by (rule filled_refl) (use False "1.prems"(2) in arith)
    then show ?thesis using binDecInner_stop[OF False] by simp
  next
    case True
    let ?bs1 = "bs[i * 64 + j := ((n ! i) div 2 ^ j) mod 2]"
    have j1: "j + 1 \<le> 64" using True by simp
    from "1.IH"[OF True "1.prems"(1) "1.prems"(1) j1]
    obtain bs' where b: "binDecInner n nbBits i (j + 1) ?bs1 = Inr bs'"
      "filled n nbBits (i * 64 + (j + 1)) (i * 64 + 64) ?bs1 bs'"
      by blast
    have eq1: "?bs1 = bs[i * 64 + j := bitOf n (i * 64 + j)]"
      using True by (simp add: bitOf_at)
    have e: "binDecInner n nbBits i j bs = Inr bs'"
      using binDecInner_step[of j i nbBits n bs] True "1.prems"(1) b(1) eq1 by simp
    have "filled n nbBits (i * 64 + j) (i * 64 + 64) bs bs'"
      by (rule filled_step) (use b(2) eq1 True in simp_all)
    then show ?thesis using e by blast
  qed
qed

lemma binDecOuter_stop: "\<not> i * 64 < nbBits \<Longrightarrow> binDecOuter n nbBits i bs = Inr bs"
  by (subst binDecOuter.simps) simp

lemma binDecOuter_step:
  "i * 64 < nbBits \<Longrightarrow> binDecInner n nbBits i 0 bs = Inr bs1 \<Longrightarrow>
   binDecOuter n nbBits i bs = binDecOuter n nbBits (i + 1) bs1"
  by (subst binDecOuter.simps) simp

lemma binDecOuter_step_panic:
  "i * 64 < nbBits \<Longrightarrow> binDecInner n nbBits i 0 bs = Inl p \<Longrightarrow>
   binDecOuter n nbBits i bs = Inl p"
  by (subst binDecOuter.simps) simp

lemma binDecOuter_ok:
  "nbBits \<le> 64 * length n \<Longrightarrow> nbBits \<le> hi \<Longrightarrow> i * 64 \<le> hi \<Longrightarrow>
   \<exists>bs'. binDecOuter n nbBits i bs = Inr bs' \<and> filled n nbBits (i * 64) hi bs bs'"
proof (induction n nbBits i bs rule: binDecOuter.induct)
  case (1 n nbBits i bs)
  show ?case
  proof (cases "i * 64 < nbBits")
    case False
    have "filled n nbBits (i * 64) hi bs bs"
      by (rule filled_refl) (use False in arith)
    then show ?thesis using binDecOuter_stop[OF False] by simp
  next
    case True
    then have il: "i < length n" using "1.prems"(1) by simp
    from binDecInner_ok[OF il, of 0 nbBits bs]
    obtain bs1 where b1: "binDecInner n nbBits i 0 bs = Inr bs1"
      "filled n nbBits (i * 64) (i * 64 + 64) bs bs1"
      by auto
    from "1.IH"[OF True b1(1) "1.prems"(1)]
    have ih: "nbBits \<le> hi \<Longrightarrow> (i + 1) * 64 \<le> hi \<Longrightarrow>
      \<exists>bs'. binDecOuter n nbBits (i + 1) bs1 = Inr bs' \<and> filled n nbBits ((i + 1) * 64) hi bs1 bs'" .
    show ?thesis
    proof (cases "(i + 1) * 64 \<le> hi")
      case True
      from ih[OF "1.prems"(2) True]
      obtain bs' where b2: "binDecOuter n nbBits (i + 1) bs1 = Inr bs'"
        "filled n nbBits ((i + 1) * 64) hi bs1 bs'" by blast
      have mid: "(i + 1) * 64 = i * 64 + 64" by simp
      have "filled n nbBits (i * 64) hi bs bs'"
        using filled_trans[OF b1(2) b2(2)[unfolded mid]] True by simp
      moreover have "binDecOuter n nbBits i bs = Inr bs'"
        using binDecOuter_step[OF \<open>i * 64 < nbBits\<close> b1(1)] b2(1) by simp
      ultimately show ?thesis by blast
    next
      case False
      then have nb: "\<not> (i + 1) * 64 < nbBits" using "1.prems"(2) by arith
      have e: "binDecOuter n nbBits i bs = Inr bs1"
        using binDecOuter_step[OF \<open>i * 64 < nbBits\<close> b1(1)] binDecOuter_stop[OF nb] by simp
      have "filled n nbBits (i * 64) hi bs bs1"
        using b1(2) False "1.prems"(2) unfolding filled_def by auto
      then show ?thesis using e by blast
    qed
  qed
qed

lemma binDecOuter_panic:
  "64 * length n < nbBits \<Longrightarrow> i \<le> length n \<Longrightarrow> binDecOuter n nbBits i bs = Inl IndexOutOfRange"
proof (induction n nbBits i bs rule: binDecOuter.induct)
  case (1 n nbBits i bs)
  have t: "i * 64 < nbBits" using "1.prems" by simp
  show ?case
  proof (cases "i < length n")
    case False
    have "binDecInner n nbBits i 0 bs = Inl IndexOutOfRange"
      by (rule binDecInner_panic) (use False t in simp_all)
    then show ?thesis using binDecOuter_step_panic[OF t] by simp
  next
    case True
    from binDecInner_ok[OF True, of 0 nbBits bs]
    obtain bs1 where b1: "binDecInner n nbBits i 0 bs = Inr bs1" by auto
    have "binDecOuter n nbBits (i + 1) bs1 = Inl IndexOutOfRange"
      by (rule "1.IH"[OF t b1 "1.prems"(1)]) (use True in simp)
    then show ?thesis using binDecOuter_step[OF t b1] by simp
  qed
qed

lemma extractBits_ok:
  assumes "nbBits \<le> 64 * length n"
  shows "\<exists>bs. extractBits n nbBits = Inr bs \<and> length bs = nbBits \<and> (\<forall>k < nbBits. bs ! k = bitOf n k)"
proof -
  from binDecOuter_ok[OF assms, of nbBits 0 "replicate nbBits 0"]
  obtain bs where b: "binDecOuter n nbBits 0 (replicate nbBits 0) = Inr bs"
    "filled n nbBits 0 nbBits (replicate nbBits 0) bs" by auto
  have "length bs = nbBits" using filled_length[OF b(2)] by simp
  moreover have "\<forall>k < nbBits. bs ! k = bitOf n k"
    using b(2) unfolding filled_def by simp
  ultimately show ?thesis using b(1) by (simp add: extractBits_def)
qed

lemma extractBits_panic:
  "64 * length n < nbBits \<Longrightarrow> extractBits n nbBits = Inl IndexOutOfRange"
  unfolding extractBits_def by (rule binDecOuter_panic) simp_all

lemma length_ToRegular: "length (ToRegular k x) = k"
  by (simp add: ToRegular_def)

text \<open>
  Claim C10. In a binary-decomposition constraint the bit extraction reads limb \<open>i\<close> of
  the evaluated \<open>O\<close> for every \<open>i\<close> with \<open>64 * i\<close> below the number of terms of \<open>L\<close>. It
  returns exactly when \<open>L\<close> has at most 64 terms per limb of the field element; with
  more terms it reads past the limb array, and solving the constraint panics.
\<close>

theorem binaryDec_extraction_total_iff:
  "((\<exists>bs. extractBits (ToRegular (nbLimbs E) x) (length (r1c_L r)) = Inr bs)
      \<longleftrightarrow> length (r1c_L r) \<le> 64 * nbLimbs E)
   \<and> (64 * nbLimbs E < length (r1c_L r) \<longrightarrow>
        extractBits (ToRegular (nbLimbs E) x) (length (r1c_L r)) = Inl IndexOutOfRange
        \<and> (Solver r = BinaryDec \<longrightarrow> (\<exists>p. solveR1C E cs r s = Inl p)))"
proof (intro conjI impI)
  show "(\<exists>bs. extractBits (ToRegular (nbLimbs E) x) (length (r1c_L r)) = Inr bs)
      \<longleftrightarrow> length (r1c_L r) \<le> 64 * nbLimbs E"
  proof (cases "length (r1c_L r) \<le> 64 * nbLimbs E")
    case True
    then show ?thesis
      using extractBits_ok[of "length (r1c_L r)" "ToRegular (nbLimbs E) x"]
      by (auto simp: length_ToRegular)
  next
    case False
    then have "extractBits (ToRegular (nbLimbs E) x) (length (r1c_L r)) = Inl IndexOutOfRange"
      by (intro extractBits_panic) (simp add: length_ToRegular)
    then show ?thesis using False by simp
  qed
next
  assume big: "64 * nbLimbs E < length (r1c_L r)"
  then show "extractBits (ToRegular (nbLimbs E) x) (length (r1c_L r)) = Inl IndexOutOfRange"
    by (intro extractBits_panic) (simp add: length_ToRegular)
next
  assume big: "64 * nbLimbs E < length (r1c_L r)" and bd: "Solver r = BinaryDec"
  have ex: "\<And>y. extractBits (ToRegular (nbLimbs E) y) (length (r1c_L r)) = Inl IndexOutOfRange"
    using big by (intro extractBits_panic) (simp add: length_ToRegular)
  show "\<exists>p. solveR1C E cs r s = Inl p"
    using bd ex by (simp add: solveR1C_def solveBinaryDec_def split: sum.splits)
qed

theorem binaryDec_extraction_total_iff_witness:
  "64 * nbLimbs E97 < length (r1c_L wide) \<and> Solver wide = BinaryDec
   \<and> \<not> length (r1c_L wide) \<le> 64 * nbLimbs E97
   \<and> extractBits (ToRegular (nbLimbs E97) 5) (length (r1c_L wide)) = Inl IndexOutOfRange
   \<and> (\<exists>p. solveR1C E97 noCoeffs wide ([1], [True]) = Inl p)"
  using binaryDec_extraction_total_iff [of E97 5 wide noCoeffs "([1], [True])"]
  by (simp add: E97_def wide_def)

end
